theory Spec2Isabelle
  imports Main
begin

section \<open>Python strings\<close>

text \<open>
  A Python \<open>str\<close> is a sequence of Unicode code points. A code point is a natural
  number and a string a list of them, so that \<open>length\<close> counts what Python's
  \<open>len\<close> counts and the em dash of the simulated answer (U+2014) is one character.
  \<open>lit\<close> writes an ASCII literal.
\<close>

type_synonym codepoint = nat
type_synonym pystr = "codepoint list"

definition lit :: "string \<Rightarrow> pystr" where
  "lit s = map of_char s"

text \<open>
  The Unicode character database belongs to the Python runtime, not to the repository.
  The string methods and the regular expression classes that \<open>LLM_QA_CLI.py\<close> uses
  read five of its tables, which the model takes as a parameter:
  \<^item> \<open>isspace\<close>: \<open>str.isspace\<close> on one character; \<open>str.split()\<close>,
    \<open>str.strip()\<close> and the class \<open>\s\<close> of \<open>re\<close> all use it;
  \<^item> \<open>isalnum\<close>: \<open>str.isalnum\<close> on one character; the class \<open>\w\<close> of
    \<open>re\<close> is \<open>isalnum\<close> or the underscore;
  \<^item> \<open>tolower_full\<close>: the full lower-case mapping of one character (one to three
    code points);
  \<^item> \<open>iscased\<close>, \<open>iscase_ignorable\<close>: the properties Cased and Case_Ignorable,
    which \<open>str.lower\<close> reads around a capital sigma.
\<close>

record ucd =
  isspace :: "codepoint \<Rightarrow> bool"
  isalnum :: "codepoint \<Rightarrow> bool"
  tolower_full :: "codepoint \<Rightarrow> pystr"
  iscased :: "codepoint \<Rightarrow> bool"
  iscase_ignorable :: "codepoint \<Rightarrow> bool"

subsection \<open>\<open>str.lower\<close>\<close>

text \<open>
  \<open>str.lower\<close> maps every character through \<open>tolower_full\<close>, except the capital
  sigma U+03A3: it becomes the final sigma U+03C2 when a cased character stands before
  it (case-ignorable characters skipped) and none stands after it (again skipping
  case-ignorable ones), and the small sigma U+03C3 otherwise. \<open>left\<close> holds the
  characters already read, the nearest first, and \<open>right\<close> those still to come.
\<close>

definition handle_capital_sigma :: "ucd \<Rightarrow> pystr \<Rightarrow> pystr \<Rightarrow> codepoint" where
  "handle_capital_sigma db left right =
     (case dropWhile (iscase_ignorable db) left of
        [] \<Rightarrow> 0x3C3
      | c # _ \<Rightarrow>
          if iscased db c
          then (case dropWhile (iscase_ignorable db) right of
                  [] \<Rightarrow> 0x3C2
                | d # _ \<Rightarrow> if iscased db d then 0x3C3 else 0x3C2)
          else 0x3C3)"

fun lower_from :: "ucd \<Rightarrow> pystr \<Rightarrow> pystr \<Rightarrow> pystr" where
  "lower_from db left [] = []"
| "lower_from db left (c # right) =
     (if c = 0x3A3 then [handle_capital_sigma db left right] else tolower_full db c)
       @ lower_from db (c # left) right"

definition lower :: "ucd \<Rightarrow> pystr \<Rightarrow> pystr" where
  "lower db s = lower_from db [] s"

subsection \<open>\<open>re.sub(r"[^\w\s]", "", text)\<close>\<close>

definition is_word :: "ucd \<Rightarrow> codepoint \<Rightarrow> bool" where
  "is_word db c = (isalnum db c \<or> c = 0x5F)"

definition sub_nonword_nonspace :: "ucd \<Rightarrow> pystr \<Rightarrow> pystr" where
  "sub_nonword_nonspace db s = filter (\<lambda>c. is_word db c \<or> isspace db c) s"

subsection \<open>\<open>str.split()\<close>, \<open>str.join\<close>, \<open>str.strip()\<close>, \<open>str.endswith\<close>\<close>

text \<open>
  \<open>split\<close> without an argument cuts at runs of whitespace and yields no empty
  token. \<open>cur\<close> is the token being read.
\<close>

fun split_from :: "ucd \<Rightarrow> pystr \<Rightarrow> pystr \<Rightarrow> pystr list" where
  "split_from db cur [] = (if cur = [] then [] else [cur])"
| "split_from db cur (c # cs) =
     (if isspace db c
      then (if cur = [] then split_from db [] cs else cur # split_from db [] cs)
      else split_from db (cur @ [c]) cs)"

definition split :: "ucd \<Rightarrow> pystr \<Rightarrow> pystr list" where
  "split db s = split_from db [] s"

fun join :: "pystr \<Rightarrow> pystr list \<Rightarrow> pystr" where
  "join sep [] = []"
| "join sep [t] = t"
| "join sep (t # ts) = t @ sep @ join sep ts"

definition strip :: "ucd \<Rightarrow> pystr \<Rightarrow> pystr" where
  "strip db s = rev (dropWhile (isspace db) (rev (dropWhile (isspace db) s)))"

definition endswith_slash :: "pystr \<Rightarrow> bool" where
  "endswith_slash s = (case rev s of [] \<Rightarrow> False | c # _ \<Rightarrow> c = 0x2F)"

section \<open>The normalizer and the prompt builder\<close>

text \<open>
  \<^verbatim>\<open>
  def preprocess(text: str) -> str:
      text = text.lower()
      text = re.sub(r"[^\w\s]", "", text)
      tokens = text.split()
      return " ".join(tokens)
  \<close>
\<close>

definition preprocess :: "ucd \<Rightarrow> pystr \<Rightarrow> pystr" where
  "preprocess db text =
     (let text1 = lower db text;
          text2 = sub_nonword_nonspace db text1;
          tokens = split db text2
      in join (lit '' '') tokens)"

text \<open>
  \<^verbatim>\<open>
  def construct_prompt(processed_question: str) -> str:
      return (
          "You are a helpful assistant. Answer concisely and clearly.\n"
          "Question: " + processed_question + "\nAnswer:"
      )
  \<close>
  The two adjacent literals are one string; 0x0A is the line feed.
\<close>

definition prompt_head :: pystr where
  "prompt_head =
     lit ''You are a helpful assistant. Answer concisely and clearly.'' @ [0x0A]
       @ lit ''Question: ''"

definition prompt_tail :: pystr where
  "prompt_tail = [0x0A] @ lit ''Answer:''"

definition construct_prompt :: "pystr \<Rightarrow> pystr" where
  "construct_prompt processed_question = prompt_head @ processed_question @ prompt_tail"

subsection \<open>What the runtime's tables are known to satisfy\<close>

text \<open>
  The ASCII rows of the tables, as CPython has them: whitespace is 9 to 13, 28 to 31
  and 32; alphanumeric are the digits and the letters; lowering adds 32 to a capital
  letter.
\<close>

definition ascii_isspace :: "codepoint \<Rightarrow> bool" where
  "ascii_isspace c = ((9 \<le> c \<and> c \<le> 13) \<or> (28 \<le> c \<and> c \<le> 32))"

definition ascii_isalnum :: "codepoint \<Rightarrow> bool" where
  "ascii_isalnum c = ((48 \<le> c \<and> c \<le> 57) \<or> (65 \<le> c \<and> c \<le> 90) \<or> (97 \<le> c \<and> c \<le> 122))"

definition ascii_tolower :: "codepoint \<Rightarrow> codepoint" where
  "ascii_tolower c = (if 65 \<le> c \<and> c \<le> 90 then c + 32 else c)"

definition ascii_agrees :: "ucd \<Rightarrow> bool" where
  "ascii_agrees db =
     (\<forall>c<128. isspace db c = ascii_isspace c \<and> isalnum db c = ascii_isalnum c
               \<and> tolower_full db c = [ascii_tolower c])"

text \<open>
  A character is lower-fixed when \<open>str.lower\<close> leaves it as it is wherever it
  stands. In the Unicode database every character of a lower-case mapping is
  lower-fixed, and so are both small sigmas and every whitespace character.
\<close>

definition lower_fixed :: "ucd \<Rightarrow> codepoint \<Rightarrow> bool" where
  "lower_fixed db c = (c \<noteq> 0x3A3 \<and> tolower_full db c = [c])"

definition lowercase_stable :: "ucd \<Rightarrow> bool" where
  "lowercase_stable db =
     ((\<forall>c. list_all (lower_fixed db) (tolower_full db c))
      \<and> lower_fixed db 0x3C2 \<and> lower_fixed db 0x3C3
      \<and> (\<forall>c. isspace db c \<longrightarrow> lower_fixed db c))"

definition ascii_only :: "pystr \<Rightarrow> bool" where
  "ascii_only s = list_all (\<lambda>c. c < 128) s"

text \<open>
  A small database for concrete inputs: the ASCII rows, the three sigmas, and the
  capital I with dot above (U+0130), whose lower case is two characters, \<open>i\<close> and the
  combining dot above (U+0307). Every other code point is taken as caseless, not
  alphanumeric and not whitespace.
\<close>

definition sample_tolower :: "codepoint \<Rightarrow> pystr" where
  "sample_tolower c =
     (if c < 128 then [ascii_tolower c]
      else if c = 0x130 then [0x69, 0x307]
      else if c = 0x3A3 then [0x3C3]
      else [c])"

definition sample_iscased :: "codepoint \<Rightarrow> bool" where
  "sample_iscased c =
     ((65 \<le> c \<and> c \<le> 90) \<or> (97 \<le> c \<and> c \<le> 122) \<or> c = 0x130 \<or> c = 0x3A3 \<or> c = 0x3C2 \<or> c = 0x3C3)"

definition sample_iscase_ignorable :: "codepoint \<Rightarrow> bool" where
  "sample_iscase_ignorable c =
     (c = 0x27 \<or> c = 0x2E \<or> c = 0x3A \<or> c = 0x5E \<or> c = 0x60 \<or> c = 0x307)"

definition sample_ucd :: ucd where
  "sample_ucd =
     \<lparr> isspace = ascii_isspace,
       isalnum = (\<lambda>c. ascii_isalnum c \<or> c = 0x3A3 \<or> c = 0x3C2 \<or> c = 0x3C3 \<or> c = 0x130),
       tolower_full = sample_tolower,
       iscased = sample_iscased,
       iscase_ignorable = sample_iscase_ignorable \<rparr>"

text \<open>
  The specification's wording of the normalizer, to compare with \<open>preprocess\<close>:
  lower-case the text, remove every character that is neither a word character nor
  whitespace, take the maximal runs of characters that are not whitespace as tokens,
  and put one space between consecutive tokens.
\<close>

function spec_tokens :: "ucd \<Rightarrow> pystr \<Rightarrow> pystr list" where
  "spec_tokens db s =
     (case dropWhile (isspace db) s of
        [] \<Rightarrow> []
      | c # cs \<Rightarrow>
          (c # takeWhile (\<lambda>x. \<not> isspace db x) cs)
            # spec_tokens db (dropWhile (\<lambda>x. \<not> isspace db x) cs))"
  by pat_completeness auto
termination
proof (relation "measure (\<lambda>(db, s). length s)")
  show "wf (measure (\<lambda>(db, s). length s))" by simp
next
  fix db :: ucd and s :: pystr and c cs
  assume "dropWhile (isspace db) s = c # cs"
  then have "length s \<ge> Suc (length cs)"
    using length_dropWhile_le [of "isspace db" s] by simp
  moreover have "length (dropWhile (\<lambda>x. \<not> isspace db x) cs) \<le> length cs"
    by (rule length_dropWhile_le)
  ultimately show "((db, dropWhile (\<lambda>x. \<not> isspace db x) cs), (db, s)) \<in> measure (\<lambda>(db, s). length s)"
    by simp
qed

fun spec_unwords :: "pystr list \<Rightarrow> pystr" where
  "spec_unwords [] = []"
| "spec_unwords (t # ts) = t @ concat (map (\<lambda>t'. 0x20 # t') ts)"

definition normalize_spec :: "ucd \<Rightarrow> pystr \<Rightarrow> pystr" where
  "normalize_spec db x =
     spec_unwords (spec_tokens db
       (filter (\<lambda>c. \<not> (\<not> is_word db c \<and> \<not> isspace db c)) (lower db x)))"

section \<open>Python values, exceptions and the runtime\<close>

text \<open>
  What \<open>resp.json()\<close> returns: \<open>None\<close>, a \<open>bool\<close>, an \<open>int\<close>, a \<open>float\<close>, a
  \<open>str\<close>, a \<open>list\<close> or a \<open>dict\<close> with string keys (in insertion order, each key
  once). A float \<open>JFloat m e\<close> stands for the decimal \<open>m * 10^e\<close>; the program does
  no arithmetic on it.
\<close>

datatype json =
    JNull
  | JBool bool
  | JInt int
  | JFloat int int
  | JStr pystr
  | JList "json list"
  | JDict "(pystr \<times> json) list"

text \<open>
  Every exception below is a subclass of \<open>Exception\<close>. \<open>RuntimeError\<close> is raised by
  the adapters themselves, \<open>AttributeError\<close> and \<open>TypeError\<close> by the interpreter, and
  \<open>LibraryError\<close> stands for what \<open>requests.post\<close> raises when the network fails
  and for what \<open>resp.json()\<close> raises on a body that is not JSON. \<open>str_exn\<close> is
  \<open>str(e)\<close>.
\<close>

datatype exn =
    RuntimeError pystr
  | AttributeError pystr
  | TypeError pystr
  | LibraryError pystr

fun str_exn :: "exn \<Rightarrow> pystr" where
  "str_exn (RuntimeError m) = m"
| "str_exn (AttributeError m) = m"
| "str_exn (TypeError m) = m"
| "str_exn (LibraryError m) = m"

fun type_name :: "json \<Rightarrow> pystr" where
  "type_name JNull = lit ''NoneType''"
| "type_name (JBool _) = lit ''bool''"
| "type_name (JInt _) = lit ''int''"
| "type_name (JFloat _ _) = lit ''float''"
| "type_name (JStr _) = lit ''str''"
| "type_name (JList _) = lit ''list''"
| "type_name (JDict _) = lit ''dict''"

text \<open>
  The rest of the runtime that the adapters call: \<open>json.dumps\<close>, and \<open>str()\<close> of a
  value that is not a string (\<open>py_repr\<close>). Both are library functions and parameters
  of the model.
\<close>

record runtime =
  unicode :: ucd
  json_dumps :: "json \<Rightarrow> pystr"
  py_repr :: "json \<Rightarrow> pystr"

definition py_str :: "runtime \<Rightarrow> json \<Rightarrow> pystr" where
  "py_str rt v = (case v of JStr s \<Rightarrow> s | _ \<Rightarrow> py_repr rt v)"

text \<open>\<open>v.strip()\<close>: only a \<open>str\<close> has the method.\<close>

definition no_attribute :: "json \<Rightarrow> pystr \<Rightarrow> exn" where
  "no_attribute v name =
     AttributeError ([0x27] @ type_name v @ [0x27] @ lit '' object has no attribute ''
                       @ [0x27] @ name @ [0x27])"

definition method_strip :: "runtime \<Rightarrow> json \<Rightarrow> exn + pystr" where
  "method_strip rt v =
     (case v of JStr s \<Rightarrow> Inr (strip (unicode rt) s) | _ \<Rightarrow> Inl (no_attribute v (lit ''strip'')))"

text \<open>\<open>"".join(parts)\<close>: the first part that is not a \<open>str\<close> raises \<open>TypeError\<close>.\<close>

fun join_parts :: "runtime \<Rightarrow> nat \<Rightarrow> json list \<Rightarrow> exn + pystr" where
  "join_parts rt i [] = Inr []"
| "join_parts rt i (p # ps) =
     (case p of
        JStr s \<Rightarrow> (case join_parts rt (Suc i) ps of Inl e \<Rightarrow> Inl e | Inr r \<Rightarrow> Inr (s @ r))
      | _ \<Rightarrow> Inl (TypeError (lit ''sequence item '' @ py_repr rt (JInt (int i))
                      @ lit '': expected str instance, '' @ type_name p @ lit '' found'')))"

section \<open>The environment and the network\<close>

record request =
  url :: pystr
  headers :: "(pystr \<times> pystr) list"
  payload :: json
  timeout :: nat

text \<open>
  A response of \<open>requests\<close>: \<open>resp.ok\<close> is false exactly for a status from 400 to
  599; \<open>resp_json\<close> is what \<open>resp.json()\<close> returns or raises.
\<close>

record response =
  status_code :: int
  resp_text :: pystr
  resp_json :: "exn + json"

definition ok :: "response \<Rightarrow> bool" where
  "ok resp = (status_code resp < 400 \<or> 600 \<le> status_code resp)"

datatype provider = Gemini | HuggingFace

text \<open>
  The world an adapter runs in: the process environment, the network (what
  \<open>requests.post\<close> returns or raises for a request), and the events so far: the
  call of an adapter and each request sent.
\<close>

datatype event = Invoked provider | Post request

record world =
  environ :: "pystr \<Rightarrow> pystr option"
  network :: "request \<Rightarrow> exn + response"
  trace :: "event list"

definition getenv :: "world \<Rightarrow> pystr \<Rightarrow> pystr option" where
  "getenv w name = environ w name"

definition getenv_default :: "world \<Rightarrow> pystr \<Rightarrow> pystr \<Rightarrow> pystr" where
  "getenv_default w name dflt = (case environ w name of None \<Rightarrow> dflt | Some v \<Rightarrow> v)"

text \<open>Truth of an optional string, and \<open>a or b\<close>.\<close>

definition truthy :: "pystr option \<Rightarrow> bool" where
  "truthy a = (case a of None \<Rightarrow> False | Some s \<Rightarrow> s \<noteq> [])"

definition py_or :: "pystr option \<Rightarrow> pystr option \<Rightarrow> pystr option" where
  "py_or a b = (if truthy a then a else b)"

definition log_event :: "event \<Rightarrow> world \<Rightarrow> world" where
  "log_event ev w = w\<lparr>trace := trace w @ [ev]\<rparr>"

definition events_since :: "world \<Rightarrow> world \<Rightarrow> event list" where
  "events_since w w' = drop (length (trace w)) (trace w')"

section \<open>The provider adapters\<close>

text \<open>
  \<open>send_to_gemini\<close>, lines 29 to 45: the request it posts, for the key found.
\<close>

definition gemini_request :: "world \<Rightarrow> pystr \<Rightarrow> pystr \<Rightarrow> request" where
  "gemini_request w api_key prompt_text =
     (let model = getenv_default w (lit ''GEMINI_MODEL'') (lit ''models/text-bison-001'');
          base = getenv_default w (lit ''GEMINI_BASE_URL'')
                   (lit ''https://generativelanguage.googleapis.com/v1/'');
          base' = (if \<not> endswith_slash base then base @ lit ''/'' else base)
      in \<lparr> url = base' @ model @ lit '':generateText?key='' @ api_key,
           headers = [(lit ''Content-Type'', lit ''application/json'')],
           payload = JDict [(lit ''prompt'', JDict [(lit ''text'', JStr prompt_text)]),
                            (lit ''temperature'', JFloat 2 (- 1)),
                            (lit ''maxOutputTokens'', JInt 512)],
           timeout = 60 \<rparr>)"

text \<open>
  Lines 50 to 72, the shapes of the response. \<open>candidates_output\<close> is
  \<open>data["candidates"][0]["output"]\<close> when the first test passes (a non-empty list
  whose first element is a dict with the key), \<open>outputs_content\<close> likewise for
  \<open>data["outputs"][0]["content"]\<close>.
\<close>

definition first_field :: "(pystr \<times> json) list \<Rightarrow> pystr \<Rightarrow> pystr \<Rightarrow> json option" where
  "first_field d list_key field =
     (case map_of d list_key of
        Some (JList (JDict first # _)) \<Rightarrow> map_of first field
      | _ \<Rightarrow> None)"

definition content_part :: "runtime \<Rightarrow> json \<Rightarrow> json" where
  "content_part rt p =
     (case p of
        JDict pd \<Rightarrow> (case map_of pd (lit ''text'') of Some v \<Rightarrow> v | None \<Rightarrow> JStr [])
      | _ \<Rightarrow> JStr (py_str rt p))"

definition gemini_parse :: "runtime \<Rightarrow> json \<Rightarrow> exn + pystr" where
  "gemini_parse rt data =
     (case data of
        JDict d \<Rightarrow>
          (case first_field d (lit ''candidates'') (lit ''output'') of
             Some out \<Rightarrow> method_strip rt out
           | None \<Rightarrow>
              (case first_field d (lit ''outputs'') (lit ''content'') of
                 Some (JList parts) \<Rightarrow>
                   (case join_parts rt 0 (map (content_part rt) parts) of
                      Inl e \<Rightarrow> Inl e
                    | Inr joined \<Rightarrow> Inr (strip (unicode rt) joined))
               | Some content \<Rightarrow> Inr (strip (unicode rt) (py_str rt content))
               | None \<Rightarrow>
                  (case map_of d (lit ''output'') of
                     Some v \<Rightarrow> Inr (strip (unicode rt) (py_str rt v))
                   | None \<Rightarrow>
                      (case map_of d (lit ''text'') of
                         Some v \<Rightarrow> Inr (strip (unicode rt) (py_str rt v))
                       | None \<Rightarrow> Inr (json_dumps rt data)))))
      | _ \<Rightarrow> Inr (json_dumps rt data))"

definition gemini_key_missing :: exn where
  "gemini_key_missing = RuntimeError (lit ''GOOGLE_API_KEY (or GEMINI_API_KEY) not set'')"

definition send_to_gemini :: "runtime \<Rightarrow> pystr \<Rightarrow> world \<Rightarrow> (exn + pystr) \<times> world" where
  "send_to_gemini rt prompt_text w0 =
     (let w = log_event (Invoked Gemini) w0;
          api_key = py_or (getenv w (lit ''GOOGLE_API_KEY'')) (getenv w (lit ''GEMINI_API_KEY''))
      in if \<not> truthy api_key then (Inl gemini_key_missing, w)
         else
           (let req = gemini_request w (the api_key) prompt_text;
                w' = log_event (Post req) w
            in case network w req of
                 Inl e \<Rightarrow> (Inl e, w')
               | Inr resp \<Rightarrow>
                   if \<not> ok resp
                   then (Inl (RuntimeError (lit ''Gemini API error: ''
                                @ py_repr rt (JInt (status_code resp)) @ lit '' '' @ resp_text resp)), w')
                   else (case resp_json resp of
                           Inl e \<Rightarrow> (Inl e, w')
                         | Inr data \<Rightarrow> (gemini_parse rt data, w'))))"

text \<open>\<open>send_to_huggingface\<close>, lines 74 to 87.\<close>

definition huggingface_request :: "pystr \<Rightarrow> pystr \<Rightarrow> request" where
  "huggingface_request token prompt_text =
     \<lparr> url = lit ''https://api-inference.huggingface.co/models/google/flan-t5-large'',
       headers = [(lit ''Authorization'', lit ''Bearer '' @ token)],
       payload = JDict [(lit ''inputs'', JStr prompt_text)],
       timeout = 60 \<rparr>"

definition huggingface_parse :: "runtime \<Rightarrow> json \<Rightarrow> json" where
  "huggingface_parse rt out =
     (case out of
        JList (JDict d # _) \<Rightarrow>
          (case map_of d (lit ''generated_text'') of
             Some v \<Rightarrow> v
           | None \<Rightarrow> JStr (json_dumps rt out))
      | _ \<Rightarrow> JStr (json_dumps rt out))"

definition huggingface_token_missing :: exn where
  "huggingface_token_missing = RuntimeError (lit ''HUGGINGFACE_API_TOKEN not set'')"

definition send_to_huggingface :: "runtime \<Rightarrow> pystr \<Rightarrow> world \<Rightarrow> (exn + json) \<times> world" where
  "send_to_huggingface rt prompt_text w0 =
     (let w = log_event (Invoked HuggingFace) w0;
          token = getenv w (lit ''HUGGINGFACE_API_TOKEN'')
      in if \<not> truthy token then (Inl huggingface_token_missing, w)
         else
           (let req = huggingface_request (the token) prompt_text;
                w' = log_event (Post req) w
            in case network w req of
                 Inl e \<Rightarrow> (Inl e, w')
               | Inr resp \<Rightarrow>
                   if \<not> ok resp
                   then (Inl (RuntimeError (lit ''HuggingFace API error: ''
                                @ py_repr rt (JInt (status_code resp)) @ lit '' '' @ resp_text resp)), w')
                   else (case resp_json resp of
                           Inl e \<Rightarrow> (Inl e, w')
                         | Inr out \<Rightarrow> (Inr (huggingface_parse rt out), w'))))"

section \<open>The orchestrator\<close>

text \<open>
  The dictionary \<open>ask_llm\<close> returns has six fixed keys. The answer is a Python value:
  a string from \<open>send_to_gemini\<close> and from the simulated branch, whatever
  \<open>generated_text\<close> holds from \<open>send_to_huggingface\<close>.
\<close>

record answer_record =
  question :: pystr
  processed :: pystr
  prompt :: pystr
  answer :: json
  source :: pystr
  errors :: "pystr list"

definition simulated_prefix :: pystr where
  "simulated_prefix =
     lit ''[SIMULATED RESPONSE '' @ [0x2014] @ lit '' no API key configured] ''
       @ lit ''Processed question: ''"

text \<open>
  \<^verbatim>\<open>
  def ask_llm(question: str) -> dict:
      processed = preprocess(question)
      prompt = construct_prompt(processed)
      errors = []
      try:
          answer = send_to_gemini(prompt)
          source = "gemini"
      except Exception as e:
          errors.append(str(e))
          try:
              answer = send_to_huggingface(prompt)
              source = "huggingface"
          except Exception as e2:
              errors.append(str(e2))
              answer = ("[SIMULATED RESPONSE ... no API key configured] "
                        "Processed question: " + processed)
              source = "simulated"
      return {"question": question, "processed": processed, "prompt": prompt,
              "answer": answer, "source": source, "errors": errors}
  \<close>
  The result is \<open>Inr\<close> of the dictionary when the call returns and \<open>Inl\<close> of the
  exception when it raises.
\<close>

definition ask_llm :: "runtime \<Rightarrow> pystr \<Rightarrow> world \<Rightarrow> (exn + answer_record) \<times> world" where
  "ask_llm rt q w =
     (let p = preprocess (unicode rt) q;
          pr = construct_prompt p
      in case send_to_gemini rt pr w of
           (Inr a, w1) \<Rightarrow>
             (Inr \<lparr> question = q, processed = p, prompt = pr, answer = JStr a,
                    source = lit ''gemini'', errors = [] \<rparr>, w1)
         | (Inl e, w1) \<Rightarrow>
             (case send_to_huggingface rt pr w1 of
                (Inr a, w2) \<Rightarrow>
                  (Inr \<lparr> question = q, processed = p, prompt = pr, answer = a,
                         source = lit ''huggingface'', errors = [str_exn e] \<rparr>, w2)
              | (Inl e2, w2) \<Rightarrow>
                  (Inr \<lparr> question = q, processed = p, prompt = pr,
                         answer = JStr (simulated_prefix @ p),
                         source = lit ''simulated'',
                         errors = [str_exn e, str_exn e2] \<rparr>, w2)))"

section \<open>Concrete runtimes and worlds\<close>

text \<open>
  A runtime over the small database. Its two printers are stand-ins: no statement
  below looks at the text they produce.
\<close>

definition sample_rt :: runtime where
  "sample_rt = \<lparr> unicode = sample_ucd, json_dumps = (\<lambda>v. lit ''<json>''),
                 py_repr = (\<lambda>v. lit ''<repr>'') \<rparr>"

text \<open>No credential is configured and nothing answers.\<close>

definition no_credentials :: world where
  "no_credentials =
     \<lparr> environ = (\<lambda>name. None),
       network = (\<lambda>req. Inl (LibraryError (lit ''connection refused''))),
       trace = [] \<rparr>"

text \<open>A network that answers every request with the given status and JSON body.\<close>

definition answering :: "int \<Rightarrow> json \<Rightarrow> request \<Rightarrow> exn + response" where
  "answering code body_json req =
     Inr \<lparr> status_code = code, resp_text = lit ''<body>'', resp_json = Inr body_json \<rparr>"

definition with_google_key :: "json \<Rightarrow> world" where
  "with_google_key body_json =
     \<lparr> environ = (\<lambda>name. if name = lit ''GOOGLE_API_KEY'' then Some (lit ''k'') else None),
       network = answering 200 body_json,
       trace = [] \<rparr>"

text \<open>Gemini has no key, Hugging Face has a token and answers.\<close>

definition with_hf_token :: world where
  "with_hf_token =
     \<lparr> environ = (\<lambda>name. if name = lit ''HUGGINGFACE_API_TOKEN'' then Some (lit ''t'') else None),
       network = answering 200 (JList [JDict [(lit ''generated_text'', JStr (lit ''Paris''))]]),
       trace = [] \<rparr>"

section \<open>String lemmas\<close>

lemma lit_eq_iff [simp]: "lit s = lit t \<longleftrightarrow> s = t"
  unfolding lit_def by (simp add: inj_map_eq_map inj_on_def)

lemma construct_prompt_eq_iff:
  "construct_prompt p1 = construct_prompt p2 \<longleftrightarrow> p1 = p2"
  by (simp add: construct_prompt_def)

lemma lower_from_fixed:
  "list_all (lower_fixed db) s \<Longrightarrow> lower_from db b s = s"
  by (induction s arbitrary: b) (auto simp: lower_fixed_def)

lemma handle_capital_sigma_cases:
  "handle_capital_sigma db b a = 0x3C2 \<or> handle_capital_sigma db b a = 0x3C3"
  by (simp add: handle_capital_sigma_def split: list.splits)

lemma lower_from_all_fixed:
  assumes "lowercase_stable db"
  shows "list_all (lower_fixed db) (lower_from db b s)"
proof (induction s arbitrary: b)
  case Nil
  show ?case by simp
next
  case (Cons c s)
  have "lower_fixed db (handle_capital_sigma db b s)"
    using assms handle_capital_sigma_cases [of db b s] by (auto simp: lowercase_stable_def)
  moreover have "list_all (lower_fixed db) (tolower_full db c)"
    using assms by (simp add: lowercase_stable_def)
  ultimately show ?case using Cons.IH by simp
qed

lemma split_from_tokens:
  "list_all (\<lambda>c. \<not> isspace db c) cur \<Longrightarrow>
   list_all (\<lambda>t. t \<noteq> [] \<and> list_all (\<lambda>c. \<not> isspace db c \<and> (c \<in> set cur \<or> c \<in> set s)) t) (split_from db cur s)"
proof (induction s arbitrary: cur)
  case Nil
  then show ?case by (auto simp: list_all_iff)
next
  case (Cons c s)
  show ?case
  proof (cases "isspace db c")
    case True
    have "list_all (\<lambda>t. t \<noteq> [] \<and> list_all (\<lambda>c. \<not> isspace db c \<and> (c \<in> set [] \<or> c \<in> set s)) t) (split_from db [] s)"
      by (rule Cons.IH) simp
    then show ?thesis using True Cons.prems by (auto simp: list_all_iff)
  next
    case False
    have "list_all (\<lambda>t. t \<noteq> [] \<and> list_all (\<lambda>d. \<not> isspace db d \<and> (d \<in> set (cur @ [c]) \<or> d \<in> set s)) t) (split_from db (cur @ [c]) s)"
      by (rule Cons.IH) (use False Cons.prems in simp)
    then show ?thesis using False by (auto simp: list_all_iff)
  qed
qed

lemma split_from_append:
  "list_all (\<lambda>c. \<not> isspace db c) t \<Longrightarrow> split_from db cur (t @ rest) = split_from db (cur @ t) rest"
  by (induction t arbitrary: cur) auto

lemma split_from_join:
  assumes sp: "isspace db 0x20"
  shows "list_all (\<lambda>t. t \<noteq> [] \<and> list_all (\<lambda>c. \<not> isspace db c) t) ts \<Longrightarrow>
         split_from db [] (join [0x20] ts) = ts"
proof (induction ts)
  case Nil
  show ?case by simp
next
  case (Cons t ts)
  then have t: "t \<noteq> []" "list_all (\<lambda>c. \<not> isspace db c) t" by simp_all
  show ?case
  proof (cases ts)
    case Nil
    then show ?thesis using t split_from_append [of db t "[]" "[]"] by simp
  next
    case (Cons v va)
    have "split_from db [] (t @ [0x20] @ join [0x20] ts) = split_from db t ([0x20] @ join [0x20] ts)"
      using split_from_append [OF t(2), of "[]"] by simp
    also have "\<dots> = t # split_from db [] (join [0x20] ts)"
      using sp t by simp
    also have "\<dots> = t # ts" using Cons.IH Cons.prems by simp
    finally show ?thesis using Cons by simp
  qed
qed

lemma set_join: "set (join sep ts) \<subseteq> set sep \<union> \<Union> (set ` set ts)"
  by (induction sep ts rule: join.induct) auto

lemma lit_space: "lit '' '' = [0x20]"
  by (simp add: lit_def)

lemma ascii_agrees_space: "ascii_agrees db \<Longrightarrow> isspace db 0x20"
  by (simp add: ascii_agrees_def ascii_isspace_def)

lemma preprocess_fixpoint:
  assumes st: "lowercase_stable db" and sp: "isspace db 0x20"
    and ts: "list_all (\<lambda>t. t \<noteq> [] \<and> list_all (\<lambda>c. \<not> isspace db c \<and> is_word db c \<and> lower_fixed db c) t) ts"
  shows "preprocess db (join [0x20] ts) = join [0x20] ts"
proof -
  let ?y = "join [0x20] ts"
  have fx20: "lower_fixed db 0x20" using st sp by (simp add: lowercase_stable_def)
  have chars: "\<forall>c \<in> set ?y. c = 0x20 \<or> (\<exists>t \<in> set ts. c \<in> set t)"
    using set_join [of "[0x20]" ts] by auto
  have "list_all (lower_fixed db) ?y"
    using chars ts fx20 by (auto simp: list_all_iff)
  then have l: "lower db ?y = ?y" by (simp add: lower_def lower_from_fixed)
  have "\<forall>c \<in> set ?y. is_word db c \<or> isspace db c"
    using chars ts sp by (auto simp: list_all_iff)
  then have f: "sub_nonword_nonspace db ?y = ?y"
    by (simp add: sub_nonword_nonspace_def)
  have "list_all (\<lambda>t. t \<noteq> [] \<and> list_all (\<lambda>c. \<not> isspace db c) t) ts"
    using ts by (auto simp: list_all_iff)
  then have s: "split db ?y = ts" by (simp add: split_def split_from_join [OF sp])
  show ?thesis by (simp add: preprocess_def l f s lit_space)
qed

lemma preprocess_tokens:
  assumes st: "lowercase_stable db"
  shows "list_all (\<lambda>t. t \<noteq> [] \<and> list_all (\<lambda>c. \<not> isspace db c \<and> is_word db c \<and> lower_fixed db c) t)
           (split db (sub_nonword_nonspace db (lower db x)))"
proof -
  let ?f = "sub_nonword_nonspace db (lower db x)"
  have a: "\<forall>c \<in> set ?f. lower_fixed db c \<and> (is_word db c \<or> isspace db c)"
    using lower_from_all_fixed [OF st, of "[]" x]
    by (auto simp: sub_nonword_nonspace_def lower_def list_all_iff)
  have "list_all (\<lambda>t. t \<noteq> [] \<and> list_all (\<lambda>c. \<not> isspace db c \<and> (c \<in> set [] \<or> c \<in> set ?f)) t) (split_from db [] ?f)"
    by (rule split_from_tokens) simp
  then show ?thesis using a by (auto simp: split_def list_all_iff)
qed

text \<open>
  Claim C4. The normalizer is idempotent: for every string \<open>x\<close>,
  \<open>preprocess (preprocess x) = preprocess x\<close>. The runtime's tables are those of
  Unicode: lower-case mappings are stable and the ASCII rows are CPython's.
\<close>

theorem preprocess_idempotent:
  assumes "lowercase_stable db" and "ascii_agrees db"
  shows "preprocess db (preprocess db x) = preprocess db x"
proof -
  have "preprocess db x = join [0x20] (split db (sub_nonword_nonspace db (lower db x)))"
    by (simp add: preprocess_def lit_space)
  then show ?thesis
    using preprocess_fixpoint [OF assms(1) ascii_agrees_space [OF assms(2)] preprocess_tokens [OF assms(1)], of x]
    by simp
qed

lemma ascii_agrees_sample: "ascii_agrees sample_ucd"
  by (simp add: ascii_agrees_def sample_ucd_def sample_tolower_def)

lemma lowercase_stable_sample: "lowercase_stable sample_ucd"
  by (auto simp: lowercase_stable_def lower_fixed_def sample_ucd_def sample_tolower_def
      ascii_tolower_def ascii_isspace_def)

theorem preprocess_idempotent_witness:
  "preprocess sample_ucd [0x41, 0x3A3, 0x2E, 0x20, 0x130, 0x3A3, 0x41] = [0x61, 0x3C2, 0x20, 0x69, 0x3C3, 0x61]
   \<and> preprocess sample_ucd (preprocess sample_ucd [0x41, 0x3A3, 0x2E, 0x20, 0x130, 0x3A3, 0x41])
       = [0x61, 0x3C2, 0x20, 0x69, 0x3C3, 0x61]"
proof -
  have v: "preprocess sample_ucd [0x41, 0x3A3, 0x2E, 0x20, 0x130, 0x3A3, 0x41] = [0x61, 0x3C2, 0x20, 0x69, 0x3C3, 0x61]"
    by code_simp
  show ?thesis
    using preprocess_idempotent [OF lowercase_stable_sample ascii_agrees_sample,
        of "[0x41, 0x3A3, 0x2E, 0x20, 0x130, 0x3A3, 0x41]"] v
    by simp
qed

text \<open>
  Claim C6. The prompt builder is injective: two different processed questions never
  give the same prompt.
\<close>

theorem construct_prompt_injective:
  "p1 \<noteq> p2 \<Longrightarrow> construct_prompt p1 \<noteq> construct_prompt p2"
  by (simp add: construct_prompt_eq_iff)

theorem construct_prompt_injective_witness:
  "lit ''what is x'' \<noteq> lit ''what is y''
   \<and> construct_prompt (lit ''what is x'') \<noteq> construct_prompt (lit ''what is y'')"
  using construct_prompt_injective [of "lit ''what is x''" "lit ''what is y''"] by simp

subsection \<open>The normalizer against its description\<close>

declare spec_tokens.simps [simp del]

lemma spec_tokens_Nil: "spec_tokens db [] = []"
  by (simp add: spec_tokens.simps)

lemma spec_tokens_space: "isspace db c \<Longrightarrow> spec_tokens db (c # s) = spec_tokens db s"
  by (simp add: spec_tokens.simps [of db "c # s"] spec_tokens.simps [of db s])

lemma spec_tokens_nonspace:
  "\<not> isspace db c \<Longrightarrow>
   spec_tokens db (c # s) =
     (c # takeWhile (\<lambda>x. \<not> isspace db x) s) # spec_tokens db (dropWhile (\<lambda>x. \<not> isspace db x) s)"
  by (simp add: spec_tokens.simps [of db "c # s"])

lemma split_from_spec:
  "split_from db cur s =
     (if cur = [] then spec_tokens db s
      else (cur @ takeWhile (\<lambda>x. \<not> isspace db x) s)
             # spec_tokens db (dropWhile (\<lambda>x. \<not> isspace db x) s))"
proof (induction s arbitrary: cur)
  case Nil
  show ?case by (simp add: spec_tokens_Nil)
next
  case (Cons c s)
  show ?case
  proof (cases "isspace db c")
    case True
    then show ?thesis using Cons.IH [of "[]"] by (simp add: spec_tokens_space)
  next
    case False
    then show ?thesis using Cons.IH [of "cur @ [c]"] by (simp add: spec_tokens_nonspace)
  qed
qed

lemma join_space_spec: "join [0x20] ts = spec_unwords ts"
proof (induction ts)
  case Nil
  show ?case by simp
next
  case (Cons t ts)
  then show ?case by (cases ts) simp_all
qed

lemma preprocess_eq_spec: "preprocess db x = normalize_spec db x"
proof -
  have "(\<lambda>c. is_word db c \<or> isspace db c) = (\<lambda>c. \<not> (\<not> is_word db c \<and> \<not> isspace db c))"
    by auto
  then show ?thesis
    by (simp add: preprocess_def normalize_spec_def sub_nonword_nonspace_def split_def
        split_from_spec lit_space join_space_spec)
qed

lemma lower_from_ascii:
  "ascii_agrees db \<Longrightarrow> ascii_only s \<Longrightarrow> lower_from db b s = map ascii_tolower s"
  by (induction s arbitrary: b) (auto simp: ascii_agrees_def ascii_only_def)

lemma ascii_tolower_ascii: "c < 128 \<Longrightarrow> ascii_tolower c < 128"
  by (simp add: ascii_tolower_def)

lemma split_from_ascii:
  "ascii_agrees db \<Longrightarrow> ascii_only s \<Longrightarrow>
   split_from db cur s = split_from sample_ucd cur s"
proof (induction s arbitrary: cur)
  case Nil
  show ?case by simp
next
  case (Cons c s)
  then have "isspace db c = isspace sample_ucd c"
    by (simp add: ascii_agrees_def ascii_only_def sample_ucd_def)
  then show ?case using Cons by (simp add: ascii_only_def)
qed

lemma preprocess_ascii:
  assumes db: "ascii_agrees db" and s: "ascii_only s"
  shows "preprocess db s = preprocess sample_ucd s"
proof -
  have l: "lower db s = map ascii_tolower s" "lower sample_ucd s = map ascii_tolower s"
    using db s ascii_agrees_sample by (simp_all add: lower_def lower_from_ascii)
  have a: "ascii_only (map ascii_tolower s)"
    using s by (auto simp: ascii_only_def list_all_iff ascii_tolower_ascii)
  have f: "sub_nonword_nonspace db (map ascii_tolower s) = sub_nonword_nonspace sample_ucd (map ascii_tolower s)"
    unfolding sub_nonword_nonspace_def
    using a db ascii_agrees_sample
    by (intro filter_cong) (auto simp: ascii_only_def list_all_iff ascii_agrees_def is_word_def)
  have "ascii_only (sub_nonword_nonspace sample_ucd (map ascii_tolower s))"
    using a by (auto simp: ascii_only_def list_all_iff sub_nonword_nonspace_def)
  then show ?thesis
    by (simp add: preprocess_def l f split_def split_from_ascii [OF db])
qed

lemma split_from_spaces: "list_all (isspace db) s \<Longrightarrow> split_from db [] s = []"
  by (induction s) auto

lemma preprocess_whitespace:
  assumes st: "lowercase_stable db" and ws: "list_all (isspace db) x"
  shows "preprocess db x = []"
proof -
  have "list_all (lower_fixed db) x"
    using st ws by (auto simp: lowercase_stable_def list_all_iff)
  then have l: "lower db x = x" by (simp add: lower_def lower_from_fixed)
  have f: "sub_nonword_nonspace db x = x"
    using ws by (auto simp: sub_nonword_nonspace_def list_all_iff)
  show ?thesis by (simp add: preprocess_def l f split_def split_from_spaces [OF ws])
qed

lemma hello_world_sample: "preprocess sample_ucd (lit ''Hello, World!'') = lit ''hello world''"
  by code_simp

lemma ascii_only_hello: "ascii_only (lit ''Hello, World!'')"
  by code_simp

text \<open>
  Claim C5. For every string, \<open>preprocess\<close> lower-cases it, removes every character
  that is neither a word character nor whitespace, splits the result on whitespace
  and joins the tokens with single spaces (\<open>normalize_spec\<close>); so
  \<open>preprocess "Hello, World!" = "hello world"\<close>, and an empty or whitespace-only
  input gives the empty string.
\<close>

theorem preprocess_meets_description:
  "preprocess db x = normalize_spec db x
   \<and> (ascii_agrees db \<longrightarrow> preprocess db (lit ''Hello, World!'') = lit ''hello world'')
   \<and> (lowercase_stable db \<and> list_all (isspace db) x \<longrightarrow> preprocess db x = [])"
  using preprocess_eq_spec [of db x] preprocess_ascii [OF _ ascii_only_hello, of db]
    hello_world_sample preprocess_whitespace [of db x]
  by simp

theorem preprocess_meets_description_witness:
  "preprocess sample_ucd [0x20, 0x09, 0x0A] = []
   \<and> normalize_spec sample_ucd [0x20, 0x09, 0x0A] = []
   \<and> preprocess sample_ucd (lit ''Hello, World!'') = lit ''hello world''"
proof -
  have ws: "list_all (isspace sample_ucd) [0x20, 0x09, 0x0A]"
    by (simp add: sample_ucd_def ascii_isspace_def)
  have "preprocess sample_ucd [0x20, 0x09, 0x0A] = normalize_spec sample_ucd [0x20, 0x09, 0x0A]"
    and "preprocess sample_ucd (lit ''Hello, World!'') = lit ''hello world''"
    and "preprocess sample_ucd [0x20, 0x09, 0x0A] = []"
    using preprocess_meets_description [of sample_ucd "[0x20, 0x09, 0x0A]"]
      ws ascii_agrees_sample lowercase_stable_sample
    by blast+
  then show ?thesis by metis
qed

section \<open>The adapters and the orchestrator\<close>

lemma lit_append: "lit (s @ t) = lit s @ lit t"
  by (simp add: lit_def)

lemma log_event_simps [simp]:
  "environ (log_event ev w) = environ w"
  "network (log_event ev w) = network w"
  "trace (log_event ev w) = trace w @ [ev]"
  by (simp_all add: log_event_def)

lemma getenv_log_event [simp]: "getenv (log_event ev w) name = getenv w name"
  by (simp add: getenv_def)

lemma gemini_request_log_event [simp]:
  "gemini_request (log_event ev w) k p = gemini_request w k p"
  by (simp add: gemini_request_def getenv_default_def)

lemma events_since_log1 [simp]: "events_since w (log_event ev w) = [ev]"
  by (simp add: events_since_def)

lemma events_since_log2 [simp]:
  "events_since w (log_event ev2 (log_event ev1 w)) = [ev1, ev2]"
  by (simp add: events_since_def)

lemma truthy_iff: "truthy a \<longleftrightarrow> (\<exists>s. a = Some s \<and> s \<noteq> [])"
  by (cases a) (simp_all add: truthy_def)

text \<open>What \<open>send_to_gemini\<close> does, by the environment and the network.\<close>

lemma send_to_gemini_no_key:
  "\<not> truthy (py_or (getenv w (lit ''GOOGLE_API_KEY'')) (getenv w (lit ''GEMINI_API_KEY''))) \<Longrightarrow>
   send_to_gemini rt p w = (Inl gemini_key_missing, log_event (Invoked Gemini) w)"
  by (simp add: send_to_gemini_def Let_def)

lemma send_to_gemini_key:
  "py_or (getenv w (lit ''GOOGLE_API_KEY'')) (getenv w (lit ''GEMINI_API_KEY'')) = Some k \<Longrightarrow> k \<noteq> [] \<Longrightarrow>
   send_to_gemini rt p w =
     (case network w (gemini_request w k p) of
        Inl e \<Rightarrow> Inl e
      | Inr resp \<Rightarrow>
          if \<not> ok resp
          then Inl (RuntimeError (lit ''Gemini API error: ''
                       @ py_repr rt (JInt (status_code resp)) @ lit '' '' @ resp_text resp))
          else (case resp_json resp of Inl e \<Rightarrow> Inl e | Inr data \<Rightarrow> gemini_parse rt data),
      log_event (Post (gemini_request w k p)) (log_event (Invoked Gemini) w))"
  by (simp add: send_to_gemini_def Let_def truthy_def split: sum.splits)

lemma send_to_gemini_events:
  "events_since w (snd (send_to_gemini rt p w)) = [Invoked Gemini]
   \<or> (\<exists>req. events_since w (snd (send_to_gemini rt p w)) = [Invoked Gemini, Post req])"
  by (simp add: send_to_gemini_def Let_def split: sum.splits)

lemma send_to_huggingface_no_token:
  "\<not> truthy (getenv w (lit ''HUGGINGFACE_API_TOKEN'')) \<Longrightarrow>
   send_to_huggingface rt p w = (Inl huggingface_token_missing, log_event (Invoked HuggingFace) w)"
  by (simp add: send_to_huggingface_def Let_def)

lemma send_to_huggingface_token:
  "getenv w (lit ''HUGGINGFACE_API_TOKEN'') = Some t \<Longrightarrow> t \<noteq> [] \<Longrightarrow>
   send_to_huggingface rt p w =
     (case network w (huggingface_request t p) of
        Inl e \<Rightarrow> Inl e
      | Inr resp \<Rightarrow>
          if \<not> ok resp
          then Inl (RuntimeError (lit ''HuggingFace API error: ''
                       @ py_repr rt (JInt (status_code resp)) @ lit '' '' @ resp_text resp))
          else (case resp_json resp of Inl e \<Rightarrow> Inl e | Inr out \<Rightarrow> Inr (huggingface_parse rt out)),
      log_event (Post (huggingface_request t p)) (log_event (Invoked HuggingFace) w))"
  by (simp add: send_to_huggingface_def Let_def truthy_def split: sum.splits)

lemma send_to_huggingface_events:
  "events_since w (snd (send_to_huggingface rt p w)) = [Invoked HuggingFace]
   \<or> (\<exists>req. events_since w (snd (send_to_huggingface rt p w)) = [Invoked HuggingFace, Post req])"
  by (simp add: send_to_huggingface_def Let_def split: sum.splits)

lemma send_to_gemini_trace:
  "trace (snd (send_to_gemini rt p w)) = trace w @ events_since w (snd (send_to_gemini rt p w))"
  by (simp add: send_to_gemini_def Let_def events_since_def split: sum.splits)

lemma send_to_huggingface_trace:
  "trace (snd (send_to_huggingface rt p w)) = trace w @ events_since w (snd (send_to_huggingface rt p w))"
  by (simp add: send_to_huggingface_def Let_def events_since_def split: sum.splits)

lemma events_since_trans:
  "trace w1 = trace w @ xs \<Longrightarrow> trace w2 = trace w1 @ ys \<Longrightarrow> events_since w w2 = xs @ ys"
  by (simp add: events_since_def)

text \<open>The three outcomes of the orchestrator.\<close>

lemma ask_llm_gemini:
  "send_to_gemini rt (construct_prompt (preprocess (unicode rt) q)) w = (Inr a, w1) \<Longrightarrow>
   ask_llm rt q w =
     (Inr \<lparr> question = q, processed = preprocess (unicode rt) q,
            prompt = construct_prompt (preprocess (unicode rt) q), answer = JStr a,
            source = lit ''gemini'', errors = [] \<rparr>, w1)"
  by (simp add: ask_llm_def Let_def)

lemma ask_llm_huggingface:
  "send_to_gemini rt (construct_prompt (preprocess (unicode rt) q)) w = (Inl e, w1) \<Longrightarrow>
   send_to_huggingface rt (construct_prompt (preprocess (unicode rt) q)) w1 = (Inr a, w2) \<Longrightarrow>
   ask_llm rt q w =
     (Inr \<lparr> question = q, processed = preprocess (unicode rt) q,
            prompt = construct_prompt (preprocess (unicode rt) q), answer = a,
            source = lit ''huggingface'', errors = [str_exn e] \<rparr>, w2)"
  by (simp add: ask_llm_def Let_def)

lemma ask_llm_simulated:
  "send_to_gemini rt (construct_prompt (preprocess (unicode rt) q)) w = (Inl e, w1) \<Longrightarrow>
   send_to_huggingface rt (construct_prompt (preprocess (unicode rt) q)) w1 = (Inl e2, w2) \<Longrightarrow>
   ask_llm rt q w =
     (Inr \<lparr> question = q, processed = preprocess (unicode rt) q,
            prompt = construct_prompt (preprocess (unicode rt) q),
            answer = JStr (simulated_prefix @ preprocess (unicode rt) q),
            source = lit ''simulated'', errors = [str_exn e, str_exn e2] \<rparr>, w2)"
  by (simp add: ask_llm_def Let_def)

lemma ask_llm_cases:
  fixes rt q w
  defines "p \<equiv> construct_prompt (preprocess (unicode rt) q)"
  obtains (gemini) a w1 where "send_to_gemini rt p w = (Inr a, w1)"
  | (huggingface) e w1 a w2 where "send_to_gemini rt p w = (Inl e, w1)"
      "send_to_huggingface rt p w1 = (Inr a, w2)"
  | (simulated) e w1 e2 w2 where "send_to_gemini rt p w = (Inl e, w1)"
      "send_to_huggingface rt p w1 = (Inl e2, w2)"
proof (cases "send_to_gemini rt p w")
  case (Pair r w1)
  show ?thesis
  proof (cases r)
    case (Inr a)
    then show ?thesis using Pair gemini by simp
  next
    case (Inl e)
    show ?thesis
    proof (cases "send_to_huggingface rt p w1")
      case hf: (Pair r2 w2)
      then show ?thesis using Pair Inl huggingface simulated by (cases r2) simp_all
    qed
  qed
qed

text \<open>
  Claim C1. For every question and every world (so for every behaviour of the two
  adapters), \<open>ask_llm\<close> returns a record and raises nothing; the message of every
  adapter failure is in the record's error list.
\<close>

theorem ask_llm_never_raises:
  "\<exists>r w'. ask_llm rt q w = (Inr r, w')
     \<and> (\<forall>e w1. send_to_gemini rt (construct_prompt (preprocess (unicode rt) q)) w = (Inl e, w1) \<longrightarrow>
          str_exn e \<in> set (errors r)
          \<and> (\<forall>e2 w2. send_to_huggingface rt (construct_prompt (preprocess (unicode rt) q)) w1 = (Inl e2, w2) \<longrightarrow>
                str_exn e2 \<in> set (errors r)))"
proof (cases rt q w rule: ask_llm_cases)
  case (gemini a w1)
  then show ?thesis using ask_llm_gemini [OF gemini] by simp
next
  case (huggingface e w1 a w2)
  then show ?thesis using ask_llm_huggingface [OF huggingface] by simp
next
  case (simulated e w1 e2 w2)
  then show ?thesis using ask_llm_simulated [OF simulated] by simp
qed

lemma no_credentials_env [simp]: "getenv no_credentials name = None"
  by (simp add: getenv_def no_credentials_def)

lemma py_or_None [simp]: "py_or None b = b"
  by (simp add: py_or_def truthy_def)

lemma truthy_simps [simp]: "truthy None = False" "truthy (Some s) = (s \<noteq> [])"
  by (simp_all add: truthy_def)

lemma send_to_gemini_no_credentials:
  "send_to_gemini rt p no_credentials = (Inl gemini_key_missing, log_event (Invoked Gemini) no_credentials)"
  by (rule send_to_gemini_no_key) simp

theorem ask_llm_never_raises_witness:
  "\<exists>r w'. ask_llm sample_rt (lit ''What is the Capital of France?'') no_credentials = (Inr r, w')
     \<and> lit ''GOOGLE_API_KEY (or GEMINI_API_KEY) not set'' \<in> set (errors r)
     \<and> lit ''HUGGINGFACE_API_TOKEN not set'' \<in> set (errors r)"
proof -
  let ?q = "lit ''What is the Capital of France?''"
  let ?p = "construct_prompt (preprocess (unicode sample_rt) ?q)"
  have g: "send_to_gemini sample_rt ?p no_credentials
             = (Inl gemini_key_missing, log_event (Invoked Gemini) no_credentials)"
    by (rule send_to_gemini_no_credentials)
  have h: "send_to_huggingface sample_rt ?p (log_event (Invoked Gemini) no_credentials)
             = (Inl huggingface_token_missing,
                log_event (Invoked HuggingFace) (log_event (Invoked Gemini) no_credentials))"
    by (rule send_to_huggingface_no_token) simp
  from ask_llm_never_raises [of sample_rt ?q no_credentials]
  obtain r w' where r: "ask_llm sample_rt ?q no_credentials = (Inr r, w')"
    and e: "\<forall>e w1. send_to_gemini sample_rt ?p no_credentials = (Inl e, w1) \<longrightarrow>
          str_exn e \<in> set (errors r)
          \<and> (\<forall>e2 w2. send_to_huggingface sample_rt ?p w1 = (Inl e2, w2) \<longrightarrow>
                str_exn e2 \<in> set (errors r))"
    by blast
  from e g h have "str_exn gemini_key_missing \<in> set (errors r)"
    and "str_exn huggingface_token_missing \<in> set (errors r)"
    by blast+
  then show ?thesis using r
    by (auto simp: gemini_key_missing_def huggingface_token_missing_def)
qed


lemma ask_llm_world_gemini:
  "send_to_gemini rt (construct_prompt (preprocess (unicode rt) q)) w = (Inr a, w1) \<Longrightarrow>
   snd (ask_llm rt q w) = w1"
  by (simp add: ask_llm_gemini)

lemma ask_llm_world_fallback:
  "send_to_gemini rt (construct_prompt (preprocess (unicode rt) q)) w = (Inl e, w1) \<Longrightarrow>
   snd (ask_llm rt q w) = snd (send_to_huggingface rt (construct_prompt (preprocess (unicode rt) q)) w1)"
  by (cases "send_to_huggingface rt (construct_prompt (preprocess (unicode rt) q)) w1")
     (auto simp: ask_llm_def Let_def split: sum.splits)

lemma gemini_events_no_huggingface:
  "Invoked HuggingFace \<notin> set (events_since w (snd (send_to_gemini rt p w)))"
  using send_to_gemini_events [of w rt p] by auto

lemma gemini_events_gemini:
  "Invoked Gemini \<in> set (events_since w (snd (send_to_gemini rt p w)))"
  using send_to_gemini_events [of w rt p] by auto

lemma fallback_events:
  "\<exists>evs. events_since w (snd (send_to_huggingface rt p (snd (send_to_gemini rt p w))))
          = events_since w (snd (send_to_gemini rt p w)) @ Invoked HuggingFace # evs"
proof -
  let ?w1 = "snd (send_to_gemini rt p w)"
  let ?w2 = "snd (send_to_huggingface rt p ?w1)"
  have "events_since w ?w2 = events_since w ?w1 @ events_since ?w1 ?w2"
    by (rule events_since_trans [OF send_to_gemini_trace send_to_huggingface_trace])
  then show ?thesis using send_to_huggingface_events [of ?w1 rt p] by auto
qed

text \<open>
  Claim C2. If \<open>send_to_gemini\<close> fails and \<open>send_to_huggingface\<close> then succeeds with
  \<open>a\<close>, \<open>ask_llm\<close> returns \<open>a\<close> as the answer with source \<open>huggingface\<close> and the
  first failure's message in the error list. \<open>send_to_huggingface\<close> is called exactly
  when \<open>send_to_gemini\<close> has failed, and then after everything \<open>send_to_gemini\<close>
  did.
\<close>

theorem ask_llm_falls_back_to_huggingface:
  fixes rt q w
  defines "p \<equiv> construct_prompt (preprocess (unicode rt) q)"
  shows
    "(\<forall>e w1 a w2.
        send_to_gemini rt p w = (Inl e, w1) \<and> send_to_huggingface rt p w1 = (Inr a, w2) \<longrightarrow>
        ask_llm rt q w =
          (Inr \<lparr> question = q, processed = preprocess (unicode rt) q, prompt = p, answer = a,
                 source = lit ''huggingface'', errors = [str_exn e] \<rparr>, w2))
     \<and> (Invoked HuggingFace \<in> set (events_since w (snd (ask_llm rt q w)))
          \<longleftrightarrow> (\<exists>e w1. send_to_gemini rt p w = (Inl e, w1)))
     \<and> (\<forall>e w1. send_to_gemini rt p w = (Inl e, w1) \<longrightarrow>
          (\<exists>evs. events_since w (snd (ask_llm rt q w))
                   = events_since w w1 @ Invoked HuggingFace # evs
                 \<and> Invoked Gemini \<in> set (events_since w w1)
                 \<and> Invoked HuggingFace \<notin> set (events_since w w1)))"
proof (intro conjI)
  show "\<forall>e w1 a w2.
        send_to_gemini rt p w = (Inl e, w1) \<and> send_to_huggingface rt p w1 = (Inr a, w2) \<longrightarrow>
        ask_llm rt q w =
          (Inr \<lparr> question = q, processed = preprocess (unicode rt) q, prompt = p, answer = a,
                 source = lit ''huggingface'', errors = [str_exn e] \<rparr>, w2)"
    unfolding p_def by (auto intro: ask_llm_huggingface)
next
  have order: "\<exists>evs. events_since w (snd (ask_llm rt q w))
                   = events_since w w1 @ Invoked HuggingFace # evs
                 \<and> Invoked Gemini \<in> set (events_since w w1)
                 \<and> Invoked HuggingFace \<notin> set (events_since w w1)"
    if f: "send_to_gemini rt p w = (Inl e, w1)" for e w1
  proof -
    have w1: "w1 = snd (send_to_gemini rt p w)" using f by simp
    have "snd (ask_llm rt q w) = snd (send_to_huggingface rt p w1)"
      using f unfolding p_def by (rule ask_llm_world_fallback)
    then show ?thesis
      unfolding w1
      using fallback_events [of w rt p] gemini_events_gemini [of w rt p]
        gemini_events_no_huggingface [of w rt p]
      by simp
  qed
  then show "\<forall>e w1. send_to_gemini rt p w = (Inl e, w1) \<longrightarrow>
          (\<exists>evs. events_since w (snd (ask_llm rt q w))
                   = events_since w w1 @ Invoked HuggingFace # evs
                 \<and> Invoked Gemini \<in> set (events_since w w1)
                 \<and> Invoked HuggingFace \<notin> set (events_since w w1))"
    by blast
  show "Invoked HuggingFace \<in> set (events_since w (snd (ask_llm rt q w)))
          \<longleftrightarrow> (\<exists>e w1. send_to_gemini rt p w = (Inl e, w1))"
  proof (cases "send_to_gemini rt p w")
    case (Pair r w1)
    show ?thesis
    proof (cases r)
      case (Inl e)
      then have f: "send_to_gemini rt p w = (Inl e, w1)" using Pair by simp
      from order [OF f] show ?thesis using f by auto
    next
      case (Inr a)
      then have g: "send_to_gemini rt p w = (Inr a, w1)" using Pair by simp
      then have "snd (ask_llm rt q w) = snd (send_to_gemini rt p w)"
        unfolding p_def by (simp add: ask_llm_world_gemini)
      then show ?thesis using g gemini_events_no_huggingface [of w rt p] by simp
    qed
  qed
qed

lemma with_hf_token_env [simp]:
  "getenv with_hf_token (lit ''GOOGLE_API_KEY'') = None"
  "getenv with_hf_token (lit ''GEMINI_API_KEY'') = None"
  "getenv with_hf_token (lit ''HUGGINGFACE_API_TOKEN'') = Some (lit ''t'')"
  by (simp_all add: getenv_def with_hf_token_def)

lemma lit_nonempty [simp]: "lit s = [] \<longleftrightarrow> s = []"
  by (simp add: lit_def)

lemma ok_200: "status_code resp = 200 \<Longrightarrow> ok resp"
  by (simp add: ok_def)

lemma send_to_huggingface_with_hf_token:
  "send_to_huggingface sample_rt p (log_event (Invoked Gemini) with_hf_token) =
     (Inr (JStr (lit ''Paris'')),
      log_event (Post (huggingface_request (lit ''t'') p))
        (log_event (Invoked HuggingFace) (log_event (Invoked Gemini) with_hf_token)))"
  by (simp add: send_to_huggingface_token [where t = "lit ''t''"] with_hf_token_def answering_def
      ok_def huggingface_parse_def getenv_def)

theorem ask_llm_falls_back_to_huggingface_witness:
  "\<exists>r w'. ask_llm sample_rt (lit ''What is the Capital of France?'') with_hf_token = (Inr r, w')
     \<and> answer r = JStr (lit ''Paris'') \<and> source r = lit ''huggingface''
     \<and> errors r = [lit ''GOOGLE_API_KEY (or GEMINI_API_KEY) not set'']
     \<and> Invoked HuggingFace \<in> set (events_since with_hf_token w')"
proof -
  let ?q = "lit ''What is the Capital of France?''"
  let ?p = "construct_prompt (preprocess (unicode sample_rt) ?q)"
  have g: "send_to_gemini sample_rt ?p with_hf_token
             = (Inl gemini_key_missing, log_event (Invoked Gemini) with_hf_token)"
    by (rule send_to_gemini_no_key) simp
  note h = send_to_huggingface_with_hf_token [of ?p]
  note c2 = ask_llm_falls_back_to_huggingface [of sample_rt ?q with_hf_token]
  from c2 g h have a: "ask_llm sample_rt ?q with_hf_token =
          (Inr \<lparr> question = ?q, processed = preprocess (unicode sample_rt) ?q, prompt = ?p,
                 answer = JStr (lit ''Paris''),
                 source = lit ''huggingface'', errors = [str_exn gemini_key_missing] \<rparr>,
           log_event (Post (huggingface_request (lit ''t'') ?p))
             (log_event (Invoked HuggingFace) (log_event (Invoked Gemini) with_hf_token)))"
    by blast
  from c2 g have b: "Invoked HuggingFace \<in> set (events_since with_hf_token (snd (ask_llm sample_rt ?q with_hf_token)))"
    by blast
  show ?thesis using a b by (simp add: gemini_key_missing_def)
qed

lemma capital_of_france_sample:
  "preprocess sample_ucd (lit ''What is the Capital of France?'') = lit ''what is the capital of france''"
  by code_simp

lemma ascii_only_capital: "ascii_only (lit ''What is the Capital of France?'')"
  by code_simp

lemma capital_of_france:
  "ascii_agrees db \<Longrightarrow>
   preprocess db (lit ''What is the Capital of France?'') = lit ''what is the capital of france''"
  using preprocess_ascii [OF _ ascii_only_capital, of db] capital_of_france_sample by simp

lemma simulated_prefix_text:
  "simulated_prefix =
     lit ''[SIMULATED RESPONSE '' @ [0x2014] @ lit '' no API key configured] Processed question: ''"
  by (simp add: simulated_prefix_def lit_def)

text \<open>
  Claim C3. If both adapters fail, the answer is the text
  \<open>[SIMULATED RESPONSE\<close>, an em dash, \<open>no API key configured] Processed question: \<close>
  followed by \<open>preprocess q\<close>, and the source is \<open>simulated\<close>. For the question
  \<open>What is the Capital of France?\<close> with no credential in the environment, the
  processed question is \<open>what is the capital of france\<close>, the source is
  \<open>simulated\<close> and the answer ends with the processed question.
\<close>

theorem ask_llm_simulated_answer:
  "(\<forall>e w1 e2 w2.
      send_to_gemini rt (construct_prompt (preprocess (unicode rt) q)) w = (Inl e, w1)
      \<and> send_to_huggingface rt (construct_prompt (preprocess (unicode rt) q)) w1 = (Inl e2, w2) \<longrightarrow>
      (\<exists>r. ask_llm rt q w = (Inr r, w2)
           \<and> answer r = JStr (lit ''[SIMULATED RESPONSE '' @ [0x2014]
                               @ lit '' no API key configured] Processed question: ''
                               @ preprocess (unicode rt) q)
           \<and> source r = lit ''simulated''))
   \<and> (ascii_agrees (unicode rt)
        \<and> getenv w (lit ''GOOGLE_API_KEY'') = None \<and> getenv w (lit ''GEMINI_API_KEY'') = None
        \<and> getenv w (lit ''HUGGINGFACE_API_TOKEN'') = None \<longrightarrow>
        (\<exists>r w'. ask_llm rt (lit ''What is the Capital of France?'') w = (Inr r, w')
           \<and> processed r = lit ''what is the capital of france''
           \<and> source r = lit ''simulated''
           \<and> answer r = JStr (lit ''[SIMULATED RESPONSE '' @ [0x2014]
                               @ lit '' no API key configured] Processed question: ''
                               @ lit ''what is the capital of france'')))"
proof (intro conjI allI impI)
  fix e w1 e2 w2
  assume "send_to_gemini rt (construct_prompt (preprocess (unicode rt) q)) w = (Inl e, w1)
      \<and> send_to_huggingface rt (construct_prompt (preprocess (unicode rt) q)) w1 = (Inl e2, w2)"
  then show "\<exists>r. ask_llm rt q w = (Inr r, w2)
           \<and> answer r = JStr (lit ''[SIMULATED RESPONSE '' @ [0x2014]
                               @ lit '' no API key configured] Processed question: ''
                               @ preprocess (unicode rt) q)
           \<and> source r = lit ''simulated''"
    by (simp add: ask_llm_simulated simulated_prefix_text)
next
  let ?q = "lit ''What is the Capital of France?''"
  let ?p = "construct_prompt (preprocess (unicode rt) ?q)"
  assume a: "ascii_agrees (unicode rt)
        \<and> getenv w (lit ''GOOGLE_API_KEY'') = None \<and> getenv w (lit ''GEMINI_API_KEY'') = None
        \<and> getenv w (lit ''HUGGINGFACE_API_TOKEN'') = None"
  have g: "send_to_gemini rt ?p w = (Inl gemini_key_missing, log_event (Invoked Gemini) w)"
    by (rule send_to_gemini_no_key) (use a in simp)
  have h: "send_to_huggingface rt ?p (log_event (Invoked Gemini) w)
             = (Inl huggingface_token_missing,
                log_event (Invoked HuggingFace) (log_event (Invoked Gemini) w))"
    by (rule send_to_huggingface_no_token) (use a in simp)
  show "\<exists>r w'. ask_llm rt ?q w = (Inr r, w')
           \<and> processed r = lit ''what is the capital of france''
           \<and> source r = lit ''simulated''
           \<and> answer r = JStr (lit ''[SIMULATED RESPONSE '' @ [0x2014]
                               @ lit '' no API key configured] Processed question: ''
                               @ lit ''what is the capital of france'')"
    using a by (simp add: ask_llm_simulated [OF g h] simulated_prefix_text capital_of_france)
qed

theorem ask_llm_simulated_answer_witness:
  "\<exists>r w'. ask_llm sample_rt (lit ''What is the Capital of France?'') no_credentials = (Inr r, w')
     \<and> processed r = lit ''what is the capital of france''
     \<and> source r = lit ''simulated''
     \<and> answer r = JStr (lit ''[SIMULATED RESPONSE '' @ [0x2014]
                         @ lit '' no API key configured] Processed question: ''
                         @ lit ''what is the capital of france'')"
proof -
  have "ascii_agrees (unicode sample_rt)"
    by (simp add: sample_rt_def ascii_agrees_sample)
  then show ?thesis
    using ask_llm_simulated_answer [of sample_rt "lit ''What is the Capital of France?''" no_credentials]
    by simp
qed


lemma strip_paris: "ascii_agrees db \<Longrightarrow> strip db (lit ''Paris'') = lit ''Paris''"
  by (simp add: strip_def lit_def ascii_agrees_def ascii_isspace_def)

lemma gemini_parse_paris:
  "ascii_agrees (unicode rt) \<Longrightarrow>
   gemini_parse rt (JDict [(lit ''candidates'', JList [JDict [(lit ''output'', JStr (lit ''Paris''))]])])
     = Inr (lit ''Paris'')"
  by (simp add: gemini_parse_def first_field_def method_strip_def strip_paris)

text \<open>
  Claim C7. When \<open>send_to_gemini\<close> gets a successful response whose JSON body is
  \<open>{"candidates": [{"output": "Paris"}]}\<close>, it returns \<open>Paris\<close>, and \<open>ask_llm\<close>
  sets the source to \<open>gemini\<close>.
\<close>

theorem gemini_candidates_output:
  assumes "ascii_agrees (unicode rt)"
    and "py_or (getenv w (lit ''GOOGLE_API_KEY'')) (getenv w (lit ''GEMINI_API_KEY'')) = Some k"
    and "k \<noteq> []"
    and "network w (gemini_request w k (construct_prompt (preprocess (unicode rt) q))) = Inr resp"
    and "ok resp"
    and "resp_json resp
           = Inr (JDict [(lit ''candidates'', JList [JDict [(lit ''output'', JStr (lit ''Paris''))]])])"
  shows "fst (send_to_gemini rt (construct_prompt (preprocess (unicode rt) q)) w) = Inr (lit ''Paris'')
         \<and> (\<exists>r w'. ask_llm rt q w = (Inr r, w')
               \<and> answer r = JStr (lit ''Paris'') \<and> source r = lit ''gemini'')"
proof -
  let ?p = "construct_prompt (preprocess (unicode rt) q)"
  have g: "send_to_gemini rt ?p w =
        (Inr (lit ''Paris''), log_event (Post (gemini_request w k ?p)) (log_event (Invoked Gemini) w))"
    using assms by (simp add: send_to_gemini_key [OF assms(2,3)] gemini_parse_paris)
  show ?thesis using g by (simp add: ask_llm_gemini [OF g])
qed

lemma with_google_key_env [simp]:
  "getenv (with_google_key b) (lit ''GOOGLE_API_KEY'') = Some (lit ''k'')"
  "network (with_google_key b) = answering 200 b"
  by (simp_all add: getenv_def with_google_key_def)

lemma py_or_Some [simp]: "s \<noteq> [] \<Longrightarrow> py_or (Some s) b = Some s"
  by (simp add: py_or_def)

theorem gemini_candidates_output_witness:
  "fst (send_to_gemini sample_rt
          (construct_prompt (preprocess (unicode sample_rt) (lit ''What is the Capital of France?'')))
          (with_google_key
             (JDict [(lit ''candidates'', JList [JDict [(lit ''output'', JStr (lit ''Paris''))]])])))
     = Inr (lit ''Paris'')
   \<and> (\<exists>r w'. ask_llm sample_rt (lit ''What is the Capital of France?'')
                (with_google_key
                   (JDict [(lit ''candidates'', JList [JDict [(lit ''output'', JStr (lit ''Paris''))]])]))
                = (Inr r, w')
             \<and> answer r = JStr (lit ''Paris'') \<and> source r = lit ''gemini'')"
proof -
  let ?b = "JDict [(lit ''candidates'', JList [JDict [(lit ''output'', JStr (lit ''Paris''))]])]"
  let ?resp = "\<lparr> status_code = 200, resp_text = lit ''<body>'', resp_json = Inr ?b \<rparr>"
  have a: "ascii_agrees (unicode sample_rt)"
    by (simp add: sample_rt_def ascii_agrees_sample)
  show ?thesis
    by (rule gemini_candidates_output [OF a, where k = "lit ''k''" and resp = ?resp])
       (simp_all add: answering_def ok_def)
qed

text \<open>
  Claim C8. Each adapter fails at once with a configuration error, before any request
  is sent, when its credential is absent. \<open>send_to_gemini\<close> reads
  \<open>GOOGLE_API_KEY\<close>, then \<open>GEMINI_API_KEY\<close>; the first that is not empty is the key
  of the request, and it fails when both are unset or empty. \<open>send_to_huggingface\<close>
  reads \<open>HUGGINGFACE_API_TOKEN\<close> and fails when it is unset or empty.
\<close>

theorem adapters_need_credentials:
  "((getenv w (lit ''GOOGLE_API_KEY'') = None \<or> getenv w (lit ''GOOGLE_API_KEY'') = Some [])
      \<and> (getenv w (lit ''GEMINI_API_KEY'') = None \<or> getenv w (lit ''GEMINI_API_KEY'') = Some []) \<longrightarrow>
      send_to_gemini rt p w
        = (Inl (RuntimeError (lit ''GOOGLE_API_KEY (or GEMINI_API_KEY) not set'')),
           log_event (Invoked Gemini) w)
      \<and> events_since w (snd (send_to_gemini rt p w)) = [Invoked Gemini])
   \<and> (\<forall>k. getenv w (lit ''GOOGLE_API_KEY'') = Some k \<and> k \<noteq> [] \<longrightarrow>
        events_since w (snd (send_to_gemini rt p w)) = [Invoked Gemini, Post (gemini_request w k p)]
        \<and> (\<exists>pre. url (gemini_request w k p) = pre @ lit ''?key='' @ k))
   \<and> (\<forall>k. (getenv w (lit ''GOOGLE_API_KEY'') = None \<or> getenv w (lit ''GOOGLE_API_KEY'') = Some [])
           \<and> getenv w (lit ''GEMINI_API_KEY'') = Some k \<and> k \<noteq> [] \<longrightarrow>
        events_since w (snd (send_to_gemini rt p w)) = [Invoked Gemini, Post (gemini_request w k p)]
        \<and> (\<exists>pre. url (gemini_request w k p) = pre @ lit ''?key='' @ k))
   \<and> (getenv w (lit ''HUGGINGFACE_API_TOKEN'') = None
        \<or> getenv w (lit ''HUGGINGFACE_API_TOKEN'') = Some [] \<longrightarrow>
        send_to_huggingface rt p w
          = (Inl (RuntimeError (lit ''HUGGINGFACE_API_TOKEN not set'')),
             log_event (Invoked HuggingFace) w)
        \<and> events_since w (snd (send_to_huggingface rt p w)) = [Invoked HuggingFace])"
proof -
  have u: "\<exists>pre. url (gemini_request w k p) = pre @ lit ''?key='' @ k" for k
    by (simp add: gemini_request_def Let_def lit_def)
  have key: "events_since w (snd (send_to_gemini rt p w)) = [Invoked Gemini, Post (gemini_request w k p)]"
    if "py_or (getenv w (lit ''GOOGLE_API_KEY'')) (getenv w (lit ''GEMINI_API_KEY'')) = Some k" "k \<noteq> []"
    for k
    by (simp add: send_to_gemini_key [OF that])
  have a: "send_to_gemini rt p w = (Inl gemini_key_missing, log_event (Invoked Gemini) w)"
    if "getenv w (lit ''GOOGLE_API_KEY'') = None \<or> getenv w (lit ''GOOGLE_API_KEY'') = Some []"
      "getenv w (lit ''GEMINI_API_KEY'') = None \<or> getenv w (lit ''GEMINI_API_KEY'') = Some []"
    by (rule send_to_gemini_no_key) (use that in \<open>auto simp: py_or_def\<close>)
  have b: "send_to_huggingface rt p w = (Inl huggingface_token_missing, log_event (Invoked HuggingFace) w)"
    if "getenv w (lit ''HUGGINGFACE_API_TOKEN'') = None
        \<or> getenv w (lit ''HUGGINGFACE_API_TOKEN'') = Some []"
    by (rule send_to_huggingface_no_token) (use that in auto)
  have c: "py_or (getenv w (lit ''GOOGLE_API_KEY'')) (getenv w (lit ''GEMINI_API_KEY'')) = Some k"
    if "getenv w (lit ''GOOGLE_API_KEY'') = None \<or> getenv w (lit ''GOOGLE_API_KEY'') = Some []"
      "getenv w (lit ''GEMINI_API_KEY'') = Some k" for k
    using that by (auto simp: py_or_def)
  show ?thesis
    using a b c key u
    by (auto simp: gemini_key_missing_def huggingface_token_missing_def)
qed


theorem adapters_need_credentials_witness:
  "send_to_gemini sample_rt (lit ''hi'') no_credentials
     = (Inl (RuntimeError (lit ''GOOGLE_API_KEY (or GEMINI_API_KEY) not set'')),
        log_event (Invoked Gemini) no_credentials)
   \<and> send_to_huggingface sample_rt (lit ''hi'') no_credentials
     = (Inl (RuntimeError (lit ''HUGGINGFACE_API_TOKEN not set'')),
        log_event (Invoked HuggingFace) no_credentials)
   \<and> events_since (with_google_key JNull) (snd (send_to_gemini sample_rt (lit ''hi'') (with_google_key JNull)))
     = [Invoked Gemini, Post (gemini_request (with_google_key JNull) (lit ''k'') (lit ''hi''))]"
  using adapters_need_credentials [of no_credentials sample_rt "lit ''hi''"]
    adapters_need_credentials [of "with_google_key JNull" sample_rt "lit ''hi''"]
  by simp

text \<open>
  Claim C10. The record \<open>ask_llm\<close> returns has source \<open>gemini\<close>,
  \<open>huggingface\<close> or \<open>simulated\<close>; with \<open>gemini\<close> the error list is empty, with
  \<open>huggingface\<close> it is the one message of \<open>send_to_gemini\<close>'s failure, with
  \<open>simulated\<close> it is that message followed by the message of
  \<open>send_to_huggingface\<close>'s failure.
\<close>

theorem ask_llm_source_and_errors:
  fixes rt q w
  defines "p \<equiv> construct_prompt (preprocess (unicode rt) q)"
  shows
    "\<exists>r w'. ask_llm rt q w = (Inr r, w')
       \<and> (source r = lit ''gemini'' \<or> source r = lit ''huggingface'' \<or> source r = lit ''simulated'')
       \<and> (source r = lit ''gemini'' \<longrightarrow> errors r = [])
       \<and> (source r = lit ''huggingface'' \<longrightarrow>
            (\<exists>e w1. send_to_gemini rt p w = (Inl e, w1) \<and> errors r = [str_exn e]))
       \<and> (source r = lit ''simulated'' \<longrightarrow>
            (\<exists>e w1 e2 w2. send_to_gemini rt p w = (Inl e, w1)
               \<and> send_to_huggingface rt p w1 = (Inl e2, w2)
               \<and> errors r = [str_exn e, str_exn e2]))"
proof (cases rt q w rule: ask_llm_cases)
  case (gemini a w1)
  then show ?thesis using ask_llm_gemini [OF gemini] by simp
next
  case (huggingface e w1 a w2)
  then show ?thesis unfolding p_def using ask_llm_huggingface [OF huggingface] by simp
next
  case (simulated e w1 e2 w2)
  then show ?thesis unfolding p_def using ask_llm_simulated [OF simulated] by simp
qed

theorem ask_llm_source_and_errors_witness:
  "\<exists>r w'. ask_llm sample_rt (lit ''What is the Capital of France?'') no_credentials = (Inr r, w')
     \<and> source r = lit ''simulated''
     \<and> errors r = [lit ''GOOGLE_API_KEY (or GEMINI_API_KEY) not set'',
                   lit ''HUGGINGFACE_API_TOKEN not set'']"
proof -
  let ?q = "lit ''What is the Capital of France?''"
  let ?p = "construct_prompt (preprocess (unicode sample_rt) ?q)"
  have g: "send_to_gemini sample_rt ?p no_credentials
             = (Inl gemini_key_missing, log_event (Invoked Gemini) no_credentials)"
    by (rule send_to_gemini_no_credentials)
  have h: "send_to_huggingface sample_rt ?p (log_event (Invoked Gemini) no_credentials)
             = (Inl huggingface_token_missing,
                log_event (Invoked HuggingFace) (log_event (Invoked Gemini) no_credentials))"
    by (rule send_to_huggingface_no_token) simp
  from ask_llm_source_and_errors [of sample_rt ?q no_credentials]
  obtain r w' where r: "ask_llm sample_rt ?q no_credentials = (Inr r, w')"
    and s: "source r = lit ''simulated'' \<longrightarrow>
            (\<exists>e w1 e2 w2. send_to_gemini sample_rt ?p no_credentials = (Inl e, w1)
               \<and> send_to_huggingface sample_rt ?p w1 = (Inl e2, w2)
               \<and> errors r = [str_exn e, str_exn e2])"
    by blast
  have src: "source r = lit ''simulated''"
    using r by (auto simp: ask_llm_simulated [OF g h])
  with s g h have "errors r = [str_exn gemini_key_missing, str_exn huggingface_token_missing]"
    by auto
  then show ?thesis using r src
    by (auto simp: gemini_key_missing_def huggingface_token_missing_def)
qed

text \<open>
  Claim C9 says that on a successful response no adapter raises while reading the
  body. \<open>send_to_gemini\<close> does: with the body \<open>{"candidates": [{"output": null}]}\<close>
  the first shape matches and \<open>first["output"].strip()\<close> raises \<open>AttributeError\<close>,
  where the later branches convert with \<open>str\<close> before they strip.
\<close>

theorem send_to_gemini_null_output_raises:
  "fst (send_to_gemini sample_rt (construct_prompt (lit ''what is x''))
          (with_google_key (JDict [(lit ''candidates'', JList [JDict [(lit ''output'', JNull)]])])))
     = Inl (AttributeError ([0x27] @ lit ''NoneType'' @ [0x27] @ lit '' object has no attribute ''
                              @ [0x27] @ lit ''strip'' @ [0x27]))"
  by (simp add: send_to_gemini_key [where k = "lit ''k''"] answering_def ok_def
      gemini_parse_def first_field_def method_strip_def no_attribute_def)

end
